theory Spec2Isabelle
  imports Complex_Main
begin

section \<open>JavaScript primitives used by the scripts\<close>

text \<open>
  The loop counter \<open>i\<close> of both FizzBuzz scripts only takes integral values, so it is an
  \<open>int\<close>. A value handed to \<open>console.log\<close> is either a string or such a number.
\<close>

datatype js_value = JSString string | JSNumber int

text \<open>
  The remainder operator \<open>a % b\<close> of JavaScript truncates towards zero: the result has
  the sign of the dividend.
\<close>

definition js_rem :: "int \<Rightarrow> int \<Rightarrow> int" where
  "js_rem a b = sgn a * (\<bar>a\<bar> mod \<bar>b\<bar>)"

text \<open>The ten decimal digits, as the characters \<open>0\<close> to \<open>9\<close>.\<close>

definition digit_char :: "nat \<Rightarrow> char" where
  "digit_char d = ''0123456789'' ! d"

text \<open>
  \<open>Number.prototype.toString\<close> in radix ten, on an integral number: the digits of the
  magnitude, most significant first, after a minus sign for a negative number.
\<close>

function digits_of :: "nat \<Rightarrow> string" where
  "digits_of n =
     (if n < 10 then [digit_char n]
      else digits_of (n div 10) @ [digit_char (n mod 10)])"
  by pat_completeness auto
termination
  by (relation "measure (\<lambda>n. n)") auto

declare digits_of.simps [simp del]

definition number_toString :: "int \<Rightarrow> string" where
  "number_toString i =
     (if i < 0 then CHR ''-'' # digits_of (nat (- i)) else digits_of (nat i))"

text \<open>\<open>ToBoolean\<close>: the empty string and the number zero are falsy.\<close>

fun to_boolean :: "js_value \<Rightarrow> bool" where
  "to_boolean (JSString s) = (s \<noteq> [])"
| "to_boolean (JSNumber n) = (n \<noteq> 0)"

text \<open>\<open>a || b\<close> is \<open>a\<close> when \<open>a\<close> is truthy and \<open>b\<close> otherwise.\<close>

definition logical_or :: "js_value \<Rightarrow> js_value \<Rightarrow> js_value" where
  "logical_or a b = (if to_boolean a then a else b)"

section \<open>The host: clock and console\<close>

text \<open>
  The runtime underneath the scripts holds the state of its time source and the lines
  written to standard output so far.
\<close>

record 'c host =
  clock :: 'c
  console :: "string list"

text \<open>
  The only failure of the time source: it cannot produce a reading.
\<close>

datatype clock_error = ClockUnavailable

text \<open>
  The host primitive \<open>internal_now\<close> is supplied by the runtime and is not part of the
  scripts. It is taken as a parameter: a reading of the time source either throws or
  yields a timestamp, and leaves the time source in a new state.
\<close>

type_synonym ('c, 't) time_source = "'c \<Rightarrow> (clock_error + 't) \<times> 'c"

text \<open>
  \<open>console.log\<close> belongs to the platform the scripts run on, like \<open>toString\<close>. Called
  with one argument it writes one line of plain text: a string as it is, a number as its
  \<open>toString\<close>.
\<close>

fun format_value :: "js_value \<Rightarrow> string" where
  "format_value (JSString s) = s"
| "format_value (JSNumber n) = number_toString n"

definition console_log :: "js_value \<Rightarrow> 'c host \<Rightarrow> 'c host" where
  "console_log v h = h\<lparr>console := console h @ [format_value v]\<rparr>"

section \<open>The performance namespace\<close>

text \<open>
  \<open>performance.now()\<close> is \<open>return internal_now();\<close>. An exception of the primitive
  leaves the method as it is; a reading is returned as it is.
\<close>

definition performance_now :: "('c, 't) time_source \<Rightarrow> 'c host \<Rightarrow> (clock_error + 't) \<times> 'c host" where
  "performance_now internal_now h =
     (case internal_now (clock h) of
        (Inl e, c') \<Rightarrow> (Inl e, h\<lparr>clock := c'\<rparr>)
      | (Inr t, c') \<Rightarrow> (Inr t, h\<lparr>clock := c'\<rparr>))"

section \<open>The FizzBuzz scripts\<close>

subsection \<open>examples/fizzbuzz.ts\<close>

text \<open>The body of the loop, up to the value handed to \<open>console.log\<close>.\<close>

definition example_output :: "int \<Rightarrow> string" where
  "example_output i =
     (let output = [];
          output = (if js_rem i 3 = 0 then output @ ''Fizz'' else output);
          output = (if js_rem i 5 = 0 then output @ ''Buzz'' else output);
          output = (if output = [] then number_toString i else output)
      in output)"

definition example_line :: "int \<Rightarrow> string" where
  "example_line i = format_value (JSString (example_output i))"

text \<open>\<open>for (let i = 1; i <= 100; i++)\<close>, entered with the current value of \<open>i\<close>.\<close>

function example_loop :: "int \<Rightarrow> 'c host \<Rightarrow> 'c host" where
  "example_loop i h =
     (if i \<le> 100 then example_loop (i + 1) (console_log (JSString (example_output i)) h)
      else h)"
  by pat_completeness auto
termination
  by (relation "measure (\<lambda>(i, h). nat (101 - i))") auto

declare example_loop.simps [simp del]

subsection \<open>bench/fizzbuzz.ts\<close>

definition bench_output :: "int \<Rightarrow> js_value" where
  "bench_output i =
     (let output = [];
          output = (if js_rem i 3 = 0 then output @ ''Fizz'' else output);
          output = (if js_rem i 5 = 0 then output @ ''Buzz'' else output)
      in logical_or (JSString output) (JSNumber i))"

definition bench_line :: "int \<Rightarrow> string" where
  "bench_line i = format_value (bench_output i)"

function bench_loop :: "int \<Rightarrow> 'c host \<Rightarrow> 'c host" where
  "bench_loop i h =
     (if i \<le> 100 then bench_loop (i + 1) (console_log (bench_output i) h)
      else h)"
  by pat_completeness auto
termination
  by (relation "measure (\<lambda>(i, h). nat (101 - i))") auto

declare bench_loop.simps [simp del]

text \<open>
  The rest of \<open>examples/fizzbuzz.ts\<close>: the loop runs between two readings of the
  clock, then the script prints the second reading and the difference. A timestamp need
  not be integral; its conversion to a string inside the template literals is the
  parameter \<open>show_number\<close>. An exception thrown by \<open>performance.now()\<close> is not caught
  anywhere, so it ends the script with what has been printed so far. A run that
  completes returns the bindings \<open>start\<close> and \<open>end\<close>.
\<close>

record timing =
  t_start :: real
  t_end :: real

definition example_script ::
    "('c, real) time_source \<Rightarrow> (real \<Rightarrow> string) \<Rightarrow> 'c host \<Rightarrow> (clock_error + timing) \<times> 'c host" where
  "example_script internal_now show_number h0 =
     (case performance_now internal_now h0 of
        (Inl e, h1) \<Rightarrow> (Inl e, h1)
      | (Inr start, h1) \<Rightarrow>
          (let h2 = example_loop 1 h1 in
           case performance_now internal_now h2 of
             (Inl e, h3) \<Rightarrow> (Inl e, h3)
           | (Inr end, h3) \<Rightarrow>
               (let h4 = console_log (JSString (''End: '' @ show_number end)) h3;
                    h5 = console_log
                           (JSString (''Execution time: '' @ show_number (end - start) @ ''ms'')) h4
                in (Inr \<lparr>t_start = start, t_end = end\<rparr>, h5))))"

section \<open>Notions of the specification\<close>

text \<open>
  The decimal representation of a positive integer, said without the conversion of the
  scripts: a string is read digit by digit, most significant first; it represents \<open>i\<close>
  when it is not empty, holds digits only, does not start with a zero, and reads as \<open>i\<close>.
\<close>

definition is_digit :: "char \<Rightarrow> bool" where
  "is_digit c = (c \<in> set ''0123456789'')"

definition digit_value :: "char \<Rightarrow> nat" where
  "digit_value c = of_char c - 48"

definition decimal_value :: "string \<Rightarrow> nat" where
  "decimal_value s = foldl (\<lambda>a c. 10 * a + digit_value c) 0 s"

definition decimal_of :: "string \<Rightarrow> int \<Rightarrow> bool" where
  "decimal_of s i \<longleftrightarrow>
     s \<noteq> [] \<and> list_all is_digit s \<and> hd s \<noteq> CHR ''0'' \<and> int (decimal_value s) = i"

text \<open>
  Hypotheses on the host's time source: every reading is non-negative; of two successive
  readings the second is not below the first.
\<close>

definition nonnegative_source :: "('c, 't::{zero, ord}) time_source \<Rightarrow> bool" where
  "nonnegative_source internal_now \<longleftrightarrow>
     (\<forall>c t c'. internal_now c = (Inr t, c') \<longrightarrow> 0 \<le> t)"

definition monotonic_source :: "('c, 't::ord) time_source \<Rightarrow> bool" where
  "monotonic_source internal_now \<longleftrightarrow>
     (\<forall>c t1 c1 t2 c2. internal_now c = (Inr t1, c1) \<longrightarrow> internal_now c1 = (Inr t2, c2) \<longrightarrow> t1 \<le> t2)"

text \<open>
  Two synthetic time sources. The first counts its readings and advances by a fixed
  increment at each; the second never produces a reading.
\<close>

definition stub_clock :: "real \<Rightarrow> (nat, real) time_source" where
  "stub_clock step n = (Inr (real n * step), Suc n)"

definition dead_clock :: "(nat, real) time_source" where
  "dead_clock n = (Inl ClockUnavailable, n)"

text \<open>The host before a script starts: nothing printed, the time source at its first reading.\<close>

definition fresh_host :: "nat host" where
  "fresh_host = \<lparr>clock = 0, console = []\<rparr>"

text \<open>
  The line printed for the counter value \<open>i\<close> by a loop that started at 1 on an empty
  console: the \<open>i\<close>-th line of the console, when there is one.
\<close>

definition line_for :: "'c host \<Rightarrow> int \<Rightarrow> string option" where
  "line_for h i =
     (if 1 \<le> i \<and> i \<le> int (length (console h)) then Some (console h ! nat (i - 1)) else None)"

section \<open>The loops print one line for each counter value\<close>

lemma example_loop_console:
  "example_loop i h = h\<lparr>console := console h @ map example_line [i..100]\<rparr>"
proof (induction i h rule: example_loop.induct)
  case (1 i h)
  show ?case
  proof (cases "i \<le> 100")
    case True
    then have "[i..100] = i # [i + 1..100]"
      by (simp add: upto_rec1)
    with True "1" show ?thesis
      by (subst example_loop.simps) (simp add: console_log_def example_line_def)
  next
    case False
    then show ?thesis
      by (subst example_loop.simps) simp
  qed
qed

lemma bench_loop_console:
  "bench_loop i h = h\<lparr>console := console h @ map bench_line [i..100]\<rparr>"
proof (induction i h rule: bench_loop.induct)
  case (1 i h)
  show ?case
  proof (cases "i \<le> 100")
    case True
    then have "[i..100] = i # [i + 1..100]"
      by (simp add: upto_rec1)
    with True "1" show ?thesis
      by (subst bench_loop.simps) (simp add: console_log_def bench_line_def)
  next
    case False
    then show ?thesis
      by (subst bench_loop.simps) simp
  qed
qed

lemma example_loop_line_for:
  "console h = [] \<Longrightarrow> 1 \<le> i \<Longrightarrow> i \<le> 100 \<Longrightarrow> line_for (example_loop 1 h) i = Some (example_line i)"
  by (simp add: line_for_def example_loop_console nth_upto)

lemma bench_loop_line_for:
  "console h = [] \<Longrightarrow> 1 \<le> i \<Longrightarrow> i \<le> 100 \<Longrightarrow> line_for (bench_loop 1 h) i = Some (bench_line i)"
  by (simp add: line_for_def bench_loop_console nth_upto)

lemma example_line_cases:
  "example_line i =
     (if js_rem i 3 = 0 then (if js_rem i 5 = 0 then ''FizzBuzz'' else ''Fizz'')
      else if js_rem i 5 = 0 then ''Buzz'' else number_toString i)"
  by (simp add: example_line_def example_output_def)

lemma bench_line_cases:
  "bench_line i =
     (if js_rem i 3 = 0 then (if js_rem i 5 = 0 then ''FizzBuzz'' else ''Fizz'')
      else if js_rem i 5 = 0 then ''Buzz'' else number_toString i)"
  by (simp add: bench_line_def bench_output_def logical_or_def)

lemma bench_line_example_line: "bench_line i = example_line i"
  by (simp add: bench_line_cases example_line_cases)

section \<open>The conversion of a number to a string is its decimal representation\<close>

lemma below_ten: "d < 10 \<Longrightarrow> d \<in> {0, 1, 2, 3, 4, 5, 6, 7, 8, 9::nat}"
  by auto

lemma digit_char_is_digit: "d < 10 \<Longrightarrow> is_digit (digit_char d)"
  using below_ten [of d] by (auto simp: is_digit_def digit_char_def)

lemma digit_value_digit_char: "d < 10 \<Longrightarrow> digit_value (digit_char d) = d"
  using below_ten [of d] by (auto simp: digit_value_def digit_char_def)

lemma digit_char_zero: "d < 10 \<Longrightarrow> digit_char d = CHR ''0'' \<longleftrightarrow> d = 0"
  using below_ten [of d] by (auto simp: digit_char_def)

lemma digit_value_below_ten: "is_digit c \<Longrightarrow> digit_value c < 10"
  by (auto simp: is_digit_def digit_value_def)

lemma digit_char_digit_value: "is_digit c \<Longrightarrow> digit_char (digit_value c) = c"
  by (auto simp: is_digit_def digit_value_def digit_char_def)

lemma digits_of_nonempty: "digits_of n \<noteq> []"
  by (subst digits_of.simps) simp

lemma digits_of_below_ten: "n < 10 \<Longrightarrow> digits_of n = [digit_char n]"
  by (subst digits_of.simps) simp

lemma digits_of_from_ten:
  "10 \<le> n \<Longrightarrow> digits_of n = digits_of (n div 10) @ [digit_char (n mod 10)]"
  by (subst digits_of.simps) simp

lemma decimal_value_snoc: "decimal_value (s @ [c]) = 10 * decimal_value s + digit_value c"
  by (simp add: decimal_value_def)

lemma digits_of_decimal_value:
  "s \<noteq> [] \<Longrightarrow> list_all is_digit s \<Longrightarrow> hd s \<noteq> CHR ''0'' \<Longrightarrow> digits_of (decimal_value s) = s"
proof (induction s rule: rev_induct)
  case Nil
  then show ?case by simp
next
  case (snoc c s)
  from snoc.prems have c: "is_digit c" and s: "list_all is_digit s"
    by simp_all
  show ?case
  proof (cases "s = []")
    case True
    with c show ?thesis
      by (simp add: decimal_value_def digits_of_below_ten digit_value_below_ten
          digit_char_digit_value)
  next
    case False
    with snoc.prems have "hd s \<noteq> CHR ''0''" by simp
    with False s snoc.IH have IH: "digits_of (decimal_value s) = s" by simp
    have "decimal_value s \<noteq> 0"
    proof
      assume "decimal_value s = 0"
      with IH have "s = [digit_char 0]" by (simp add: digits_of_below_ten)
      with \<open>hd s \<noteq> CHR ''0''\<close> show False by (simp add: digit_char_def)
    qed
    moreover have "digit_value c < 10" using c by (rule digit_value_below_ten)
    ultimately show ?thesis
      using IH c
      by (simp add: decimal_value_snoc digits_of_from_ten digit_char_digit_value)
  qed
qed

lemma decimal_of_unique: "decimal_of s i \<Longrightarrow> s = number_toString i"
proof -
  assume a: "decimal_of s i"
  then have "digits_of (decimal_value s) = s" and "i = int (decimal_value s)"
    by (simp_all add: decimal_of_def digits_of_decimal_value)
  then show ?thesis by (simp add: number_toString_def)
qed

lemma digits_of_all_digits: "list_all is_digit (digits_of n)"
proof (induction n rule: digits_of.induct)
  case (1 n)
  show ?case
  proof (cases "n < 10")
    case True
    then show ?thesis
      by (subst digits_of.simps) (simp add: digit_char_is_digit)
  next
    case False
    with "1" show ?thesis
      by (subst digits_of.simps) (simp add: digit_char_is_digit)
  qed
qed

lemma decimal_value_digits_of: "decimal_value (digits_of n) = n"
proof (induction n rule: digits_of.induct)
  case (1 n)
  show ?case
  proof (cases "n < 10")
    case True
    then show ?thesis
      by (subst digits_of.simps) (simp add: decimal_value_def digit_value_digit_char)
  next
    case False
    with "1" show ?thesis
      by (subst digits_of.simps) (simp add: decimal_value_snoc digit_value_digit_char)
  qed
qed

lemma hd_digits_of: "0 < n \<Longrightarrow> hd (digits_of n) \<noteq> CHR ''0''"
proof (induction n rule: digits_of.induct)
  case (1 n)
  show ?case
  proof (cases "n < 10")
    case True
    with "1.prems" show ?thesis
      by (subst digits_of.simps) (simp add: digit_char_zero)
  next
    case False
    then have "0 < n div 10" by simp
    with False "1.IH" have "hd (digits_of (n div 10)) \<noteq> CHR ''0''" by simp
    with False show ?thesis
      by (subst digits_of.simps) (simp add: digits_of_nonempty)
  qed
qed

lemma number_toString_decimal: "0 < i \<Longrightarrow> decimal_of (number_toString i) i"
  by (simp add: decimal_of_def number_toString_def digits_of_nonempty digits_of_all_digits
      hd_digits_of decimal_value_digits_of)

lemma number_toString_nonempty: "number_toString i \<noteq> []"
  by (simp add: number_toString_def digits_of_nonempty)

section \<open>Reading the clock\<close>

lemma performance_now_reading:
  assumes "performance_now internal_now h = (Inr t, h')"
  obtains c' where "internal_now (clock h) = (Inr t, c')" and "h' = h\<lparr>clock := c'\<rparr>"
  using assms by (auto simp: performance_now_def split: prod.splits sum.splits)

lemma stub_clock_monotonic: "0 \<le> step \<Longrightarrow> monotonic_source (stub_clock step)"
  by (auto simp: monotonic_source_def stub_clock_def mult_right_mono)

lemma stub_clock_nonnegative: "0 \<le> step \<Longrightarrow> nonnegative_source (stub_clock step)"
  by (auto simp: nonnegative_source_def stub_clock_def)

text \<open>
  Claim C2. \<open>performance.now()\<close> is a pure pass-through: whenever the host primitive
  \<open>internal_now()\<close> produces a reading, the call returns exactly that reading, with no
  rounding, scaling or other transformation, so a fractional part is preserved. The
  example reads 5/4 of a millisecond.
\<close>

theorem now_returns_host_reading:
  "internal_now (clock h) = (Inr t, c') \<Longrightarrow>
   performance_now internal_now h = (Inr t, h\<lparr>clock := c'\<rparr>)"
  by (simp add: performance_now_def)

theorem now_returns_host_reading_witness:
  "stub_clock (1 / 4) (clock \<lparr>clock = 5, console = []\<rparr>) = (Inr (5 / 4), 6) \<and>
   performance_now (stub_clock (1 / 4)) \<lparr>clock = 5, console = []\<rparr> =
     (Inr (5 / 4), \<lparr>clock = 6, console = []\<rparr>)"
proof -
  have r: "stub_clock (1 / 4) (clock \<lparr>clock = 5, console = []\<rparr>) = (Inr (5 / 4), 6)"
    by (simp add: stub_clock_def)
  from r now_returns_host_reading [of "stub_clock (1 / 4)" "\<lparr>clock = 5, console = []\<rparr>", OF r]
  show ?thesis by simp
qed

text \<open>
  Claim C3. When the host primitive fails, \<open>performance.now()\<close> fails with the same
  error: it catches nothing and returns no value in its place, in particular not zero.
\<close>

theorem now_propagates_failure:
  "internal_now (clock h) = (Inl e, c') \<Longrightarrow>
   performance_now internal_now h = (Inl e, h\<lparr>clock := c'\<rparr>) \<and>
   (\<forall>t. fst (performance_now internal_now h) \<noteq> Inr t)"
  by (simp add: performance_now_def)

theorem now_propagates_failure_witness:
  "dead_clock (clock fresh_host) = (Inl ClockUnavailable, 0) \<and>
   performance_now dead_clock fresh_host = (Inl ClockUnavailable, fresh_host) \<and>
   fst (performance_now dead_clock fresh_host) \<noteq> Inr (0::real)"
proof -
  have r: "dead_clock (clock fresh_host) = (Inl ClockUnavailable, 0)"
    by (simp add: dead_clock_def fresh_host_def)
  from r now_propagates_failure [of dead_clock fresh_host, OF r]
  show ?thesis by (simp add: fresh_host_def)
qed

text \<open>
  Claim C4. For two successive calls \<open>t1 = now(); t2 = now();\<close>, the second made in
  the state the first has left, \<open>t2 >= t1\<close>, provided that the time source of the host
  is monotonically non-decreasing.
\<close>

theorem now_monotone:
  assumes "monotonic_source internal_now"
    and "performance_now internal_now h = (Inr t1, h1)"
    and "performance_now internal_now h1 = (Inr t2, h2)"
  shows "t1 \<le> t2"
proof -
  from assms(2) obtain c1 where a: "internal_now (clock h) = (Inr t1, c1)" and h1: "h1 = h\<lparr>clock := c1\<rparr>"
    by (auto simp: performance_now_def split: prod.splits sum.splits)
  from assms(3) obtain c2 where b: "internal_now (clock h1) = (Inr t2, c2)"
    by (auto simp: performance_now_def split: prod.splits sum.splits)
  from h1 b have "internal_now c1 = (Inr t2, c2)" by simp
  with assms(1) a show ?thesis
    unfolding monotonic_source_def by blast
qed

theorem now_monotone_witness:
  "monotonic_source (stub_clock (1 / 4)) \<and>
   performance_now (stub_clock (1 / 4)) fresh_host = (Inr 0, \<lparr>clock = 1, console = []\<rparr>) \<and>
   performance_now (stub_clock (1 / 4)) \<lparr>clock = 1, console = []\<rparr> =
     (Inr (1 / 4), \<lparr>clock = 2, console = []\<rparr>) \<and>
   (0::real) \<le> 1 / 4"
proof -
  have m: "monotonic_source (stub_clock (1 / 4))"
    by (simp add: stub_clock_monotonic)
  have a: "performance_now (stub_clock (1 / 4)) fresh_host = (Inr 0, \<lparr>clock = 1, console = []\<rparr>)"
    by (simp add: performance_now_def stub_clock_def fresh_host_def)
  have b: "performance_now (stub_clock (1 / 4)) \<lparr>clock = 1, console = []\<rparr> =
     (Inr (1 / 4), \<lparr>clock = 2, console = []\<rparr>)"
    by (simp add: performance_now_def stub_clock_def)
  from m a b now_monotone [OF m a b] show ?thesis by blast
qed

text \<open>
  Claim C5. Every value returned by \<open>performance.now()\<close> is non-negative, provided
  that the host primitive yields non-negative readings.
\<close>

theorem now_nonnegative:
  assumes "nonnegative_source internal_now"
    and "performance_now internal_now h = (Inr t, h')"
  shows "0 \<le> t"
proof -
  from assms(2) obtain c' where "internal_now (clock h) = (Inr t, c')"
    by (auto simp: performance_now_def split: prod.splits sum.splits)
  with assms(1) show ?thesis
    unfolding nonnegative_source_def by blast
qed

theorem now_nonnegative_witness:
  "nonnegative_source (stub_clock (1 / 4)) \<and>
   performance_now (stub_clock (1 / 4)) \<lparr>clock = 3, console = []\<rparr> =
     (Inr (3 / 4), \<lparr>clock = 4, console = []\<rparr>) \<and>
   (0::real) \<le> 3 / 4"
proof -
  have n: "nonnegative_source (stub_clock (1 / 4))"
    by (simp add: stub_clock_nonnegative)
  have a: "performance_now (stub_clock (1 / 4)) \<lparr>clock = 3, console = []\<rparr> =
     (Inr (3 / 4), \<lparr>clock = 4, console = []\<rparr>)"
    by (simp add: performance_now_def stub_clock_def)
  from n a now_nonnegative [OF n a] show ?thesis by blast
qed

text \<open>
  Claim C8. A call of \<open>performance.now()\<close> has no observable side effect: it writes
  nothing to the console and changes nothing but the state of the time source it reads,
  so an operation \<open>f\<close> that does not depend on the time source returns the same value
  whether or not a call of \<open>now()\<close> precedes it. This holds on the failing path too.
\<close>

theorem now_frame:
  assumes "\<forall>c. f (h\<lparr>clock := c\<rparr>) = f h"
  shows "console (snd (performance_now internal_now h)) = console h \<and>
         f (snd (performance_now internal_now h)) = f h"
  using assms by (simp add: performance_now_def split: prod.splits sum.splits)

theorem now_frame_witness:
  "(\<forall>c. line_for (\<lparr>clock = 2, console = [''1'', ''2'']\<rparr>\<lparr>clock := c\<rparr>) 2 =
        line_for \<lparr>clock = 2::nat, console = [''1'', ''2'']\<rparr> 2) \<and>
   console (snd (performance_now (stub_clock (1 / 4)) \<lparr>clock = 2, console = [''1'', ''2'']\<rparr>)) =
     [''1'', ''2''] \<and>
   line_for (snd (performance_now (stub_clock (1 / 4)) \<lparr>clock = 2, console = [''1'', ''2'']\<rparr>)) 2 =
     Some ''2''"
proof -
  let ?h = "\<lparr>clock = 2::nat, console = [''1'', ''2'']\<rparr>"
  have a: "\<forall>c. line_for (?h\<lparr>clock := c\<rparr>) 2 = line_for ?h 2"
    by (simp add: line_for_def)
  have b: "line_for ?h 2 = Some ''2''"
    by (simp add: line_for_def)
  from b now_frame [of "\<lambda>h. line_for h 2" ?h "stub_clock (1 / 4)", OF a]
  show ?thesis by (simp add: line_for_def)
qed

section \<open>The output of the FizzBuzz loops\<close>

text \<open>
  Claim C1. For the counter values 1 to 15 the labels computed by the loops are
  1, 2, Fizz, 4, Buzz, Fizz, 7, 8, Fizz, Buzz, 11, Fizz, 13, 14, FizzBuzz, in this order,
  and these are the first fifteen lines that each script prints.
\<close>

theorem fizzbuzz_first_fifteen:
  "map example_line [1..15] =
     [''1'', ''2'', ''Fizz'', ''4'', ''Buzz'', ''Fizz'', ''7'', ''8'', ''Fizz'', ''Buzz'',
      ''11'', ''Fizz'', ''13'', ''14'', ''FizzBuzz''] \<and>
   map bench_line [1..15] =
     [''1'', ''2'', ''Fizz'', ''4'', ''Buzz'', ''Fizz'', ''7'', ''8'', ''Fizz'', ''Buzz'',
      ''11'', ''Fizz'', ''13'', ''14'', ''FizzBuzz''] \<and>
   take 15 (console (example_loop 1 fresh_host)) = map example_line [1..15] \<and>
   take 15 (console (bench_loop 1 fresh_host)) = map bench_line [1..15]"
proof -
  have upto: "take 15 [1..100::int] = [1..15]"
    by code_simp
  have "map example_line [1..15] =
     [''1'', ''2'', ''Fizz'', ''4'', ''Buzz'', ''Fizz'', ''7'', ''8'', ''Fizz'', ''Buzz'',
      ''11'', ''Fizz'', ''13'', ''14'', ''FizzBuzz'']"
    by code_simp
  moreover have "map bench_line [1..15] =
     [''1'', ''2'', ''Fizz'', ''4'', ''Buzz'', ''Fizz'', ''7'', ''8'', ''Fizz'', ''Buzz'',
      ''11'', ''Fizz'', ''13'', ''14'', ''FizzBuzz'']"
    by code_simp
  moreover have "take 15 (console (example_loop 1 fresh_host)) = map example_line [1..15]"
    by (simp add: example_loop_console fresh_host_def take_map upto)
  moreover have "take 15 (console (bench_loop 1 fresh_host)) = map bench_line [1..15]"
    by (simp add: bench_loop_console fresh_host_def take_map upto)
  ultimately show ?thesis by blast
qed

text \<open>
  Claim C6. For every \<open>i\<close> from 1 to 100 that is divisible neither by 3 nor by 5, the
  line printed for \<open>i\<close> is the decimal representation of \<open>i\<close>: digits only, no leading
  zero, reading as \<open>i\<close>, and the only such string. This holds for the script that
  assigns \<open>i.toString()\<close> and for the one that prints \<open>output || i\<close>.
\<close>

theorem fallback_is_decimal:
  assumes "console h = []" and "1 \<le> i" and "i \<le> 100"
    and "js_rem i 3 \<noteq> 0" and "js_rem i 5 \<noteq> 0"
  shows "line_for (example_loop 1 h) i = Some (number_toString i) \<and>
         line_for (bench_loop 1 h) i = Some (number_toString i) \<and>
         decimal_of (number_toString i) i \<and>
         (\<forall>s. decimal_of s i \<longrightarrow> s = number_toString i)"
proof -
  from assms have "example_line i = number_toString i"
    by (simp add: example_line_cases)
  with assms have "line_for (example_loop 1 h) i = Some (number_toString i)"
    by (simp add: example_loop_line_for)
  moreover from assms have "bench_line i = number_toString i"
    by (simp add: bench_line_cases)
  with assms have "line_for (bench_loop 1 h) i = Some (number_toString i)"
    by (simp add: bench_loop_line_for)
  moreover from assms have "decimal_of (number_toString i) i"
    by (simp add: number_toString_decimal)
  ultimately show ?thesis
    using decimal_of_unique by blast
qed

theorem fallback_is_decimal_witness:
  "console fresh_host = [] \<and> (1::int) \<le> 7 \<and> (7::int) \<le> 100 \<and>
   js_rem 7 3 \<noteq> 0 \<and> js_rem 7 5 \<noteq> 0 \<and>
   line_for (example_loop 1 fresh_host) 7 = Some ''7'' \<and>
   line_for (bench_loop 1 fresh_host) 7 = Some ''7'' \<and>
   decimal_of ''7'' 7"
proof -
  have n: "number_toString 7 = ''7''"
    by (simp add: number_toString_def digits_of_below_ten digit_char_def)
  have a: "console fresh_host = []" by (simp add: fresh_host_def)
  have b: "js_rem 7 3 \<noteq> 0" "js_rem 7 5 \<noteq> 0" by (simp_all add: js_rem_def)
  from a b n fallback_is_decimal [of fresh_host 7] show ?thesis by simp
qed

text \<open>
  Claim C9. The two scripts print the same lines: for every \<open>i\<close> from 1 to 100 the line
  printed for \<open>i\<close> by \<open>examples/fizzbuzz.ts\<close> equals, as a string, the line printed for
  \<open>i\<close> by \<open>bench/fizzbuzz.ts\<close>, and so does the whole output of the loops.
\<close>

theorem loops_print_same_lines:
  assumes "console h = []" and "1 \<le> i" and "i \<le> 100"
  shows "line_for (example_loop 1 h) i = Some (example_line i) \<and>
         line_for (bench_loop 1 h) i = Some (bench_line i) \<and>
         example_line i = bench_line i \<and>
         console (example_loop 1 h) = console (bench_loop 1 h)"
proof -
  from assms have "line_for (example_loop 1 h) i = Some (example_line i)"
    by (rule example_loop_line_for)
  moreover from assms have "line_for (bench_loop 1 h) i = Some (bench_line i)"
    by (rule bench_loop_line_for)
  moreover have "console (example_loop 1 h) = console (bench_loop 1 h)"
    by (simp add: example_loop_console bench_loop_console bench_line_example_line)
  ultimately show ?thesis
    by (simp add: bench_line_example_line)
qed

theorem loops_print_same_lines_witness:
  "console fresh_host = [] \<and> (1::int) \<le> 7 \<and> (7::int) \<le> 100 \<and>
   line_for (example_loop 1 fresh_host) 7 = Some ''7'' \<and>
   line_for (bench_loop 1 fresh_host) 7 = Some ''7'' \<and>
   console (example_loop 1 fresh_host) = console (bench_loop 1 fresh_host)"
proof -
  have n: "example_line 7 = ''7''"
    by (simp add: example_line_cases js_rem_def number_toString_def digits_of_below_ten
        digit_char_def)
  have a: "console fresh_host = []" by (simp add: fresh_host_def)
  from a n loops_print_same_lines [of fresh_host 7] show ?thesis by simp
qed

text \<open>
  Claim C10. For every \<open>i\<close> from 1 to 100 the line printed by either loop is not empty:
  it is Fizz, Buzz or FizzBuzz when \<open>i\<close> is divisible by 3 or by 5, and the decimal
  representation of \<open>i\<close>, which is not empty, otherwise.
\<close>

theorem printed_line_nonempty:
  assumes "console h = []" and "1 \<le> i" and "i \<le> 100"
  shows "line_for (example_loop 1 h) i = Some (example_line i) \<and> example_line i \<noteq> [] \<and>
         line_for (bench_loop 1 h) i = Some (bench_line i) \<and> bench_line i \<noteq> [] \<and>
         (if js_rem i 3 = 0 \<or> js_rem i 5 = 0
          then example_line i \<in> {''Fizz'', ''Buzz'', ''FizzBuzz''} \<and>
               bench_line i \<in> {''Fizz'', ''Buzz'', ''FizzBuzz''}
          else example_line i = number_toString i \<and> bench_line i = number_toString i)"
proof -
  have "example_line i \<noteq> []"
    by (simp add: example_line_cases number_toString_nonempty)
  moreover have "bench_line i \<noteq> []"
    by (simp add: bench_line_cases number_toString_nonempty)
  moreover have "if js_rem i 3 = 0 \<or> js_rem i 5 = 0
          then example_line i \<in> {''Fizz'', ''Buzz'', ''FizzBuzz''} \<and>
               bench_line i \<in> {''Fizz'', ''Buzz'', ''FizzBuzz''}
          else example_line i = number_toString i \<and> bench_line i = number_toString i"
    by (simp add: example_line_cases bench_line_cases)
  ultimately show ?thesis
    using assms by (simp add: example_loop_line_for bench_loop_line_for)
qed

theorem printed_line_nonempty_witness:
  "console fresh_host = [] \<and> (1::int) \<le> 15 \<and> (15::int) \<le> 100 \<and>
   line_for (example_loop 1 fresh_host) 15 = Some ''FizzBuzz'' \<and>
   line_for (bench_loop 1 fresh_host) 15 = Some ''FizzBuzz'' \<and>
   ''FizzBuzz'' \<noteq> []"
proof -
  have n: "example_line 15 = ''FizzBuzz''" "bench_line 15 = ''FizzBuzz''"
    by (simp_all add: example_line_cases bench_line_cases js_rem_def)
  have a: "console fresh_host = []" by (simp add: fresh_host_def)
  from a n printed_line_nonempty [of fresh_host 15] show ?thesis by simp
qed

section \<open>The timed script\<close>

lemma example_script_completes:
  assumes "example_script internal_now show_number h = (Inr r, h')"
  obtains h1 h3 where
    "performance_now internal_now h = (Inr (t_start r), h1)"
    "performance_now internal_now (example_loop 1 h1) = (Inr (t_end r), h3)"
    "console h' = console h3 @
       [''End: '' @ show_number (t_end r),
        ''Execution time: '' @ show_number (t_end r - t_start r) @ ''ms'']"
  using assms
  by (auto simp: example_script_def Let_def console_log_def split: prod.splits sum.splits)

text \<open>
  The script completes when both readings of the clock succeed.
\<close>

lemma example_script_returns:
  assumes "internal_now (clock h) = (Inr t1, c1)" and "internal_now c1 = (Inr t2, c2)"
  shows "fst (example_script internal_now show_number h) = Inr \<lparr>t_start = t1, t_end = t2\<rparr>"
  using assms
  by (simp add: example_script_def performance_now_def example_loop_console Let_def)

text \<open>
  Claim C7. In the timed script, with \<open>start\<close> read before the loop over 1 to 100 and
  \<open>end\<close> read after it, the elapsed time satisfies \<open>end - start >= 0\<close>, and this
  difference is what the last line reports, provided that the time source of the host is
  monotonically non-decreasing.
\<close>

theorem elapsed_nonnegative:
  assumes "monotonic_source internal_now"
    and "example_script internal_now show_number h = (Inr r, h')"
  shows "0 \<le> t_end r - t_start r \<and>
         last (console h') = ''Execution time: '' @ show_number (t_end r - t_start r) @ ''ms''"
proof -
  from assms(2) obtain h1 h3 where
    first: "performance_now internal_now h = (Inr (t_start r), h1)" and
    second: "performance_now internal_now (example_loop 1 h1) = (Inr (t_end r), h3)" and
    out: "console h' = console h3 @
       [''End: '' @ show_number (t_end r),
        ''Execution time: '' @ show_number (t_end r - t_start r) @ ''ms'']"
    by (rule example_script_completes)
  from first obtain c1 where a: "internal_now (clock h) = (Inr (t_start r), c1)"
    and h1: "h1 = h\<lparr>clock := c1\<rparr>"
    by (rule performance_now_reading)
  from second obtain c2 where "internal_now (clock (example_loop 1 h1)) = (Inr (t_end r), c2)"
    by (rule performance_now_reading)
  with h1 have b: "internal_now c1 = (Inr (t_end r), c2)"
    by (simp add: example_loop_console)
  from assms(1) a b have "t_start r \<le> t_end r"
    unfolding monotonic_source_def by blast
  with out show ?thesis by simp
qed

theorem elapsed_nonnegative_witness:
  "monotonic_source (stub_clock (1 / 4)) \<and>
   fst (example_script (stub_clock (1 / 4)) (\<lambda>t. ''?'') fresh_host) =
     Inr \<lparr>t_start = 0, t_end = 1 / 4\<rparr> \<and>
   (0::real) \<le> 1 / 4 - 0"
proof -
  let ?run = "example_script (stub_clock (1 / 4)) (\<lambda>t. ''?'') fresh_host"
  have m: "monotonic_source (stub_clock (1 / 4))"
    by (simp add: stub_clock_monotonic)
  have f: "fst ?run = Inr \<lparr>t_start = 0, t_end = 1 / 4\<rparr>"
    by (rule example_script_returns [where ?c1.0 = 1 and ?c2.0 = 2])
      (simp_all add: stub_clock_def fresh_host_def)
  then have e: "?run = (Inr \<lparr>t_start = 0, t_end = 1 / 4\<rparr>, snd ?run)"
    by (simp add: prod_eq_iff)
  from m f elapsed_nonnegative [OF m e] show ?thesis by simp
qed

end
